theory Spec2Isabelle
  imports Complex_Main "HOL-Library.AList" "HOL-Library.Sublist"
begin

section \<open>Python values and string primitives\<close>

text \<open>
  The development embeds \<^verbatim>\<open>src/Validation/verify_mongo_data.py\<close>. A Python string is
  modelled as a \<^typ>\<open>string\<close> whose characters are read as the code points 0..255; the
  string methods below are Python's on that range.
\<close>

datatype pyfloat = Fin rat | PosInf | NegInf | NaN

text \<open>
  A Python \<^verbatim>\<open>float\<close> is a finite double, given by its exact rational value, an infinity
  or not-a-number. The values that reach the functions below are \<^verbatim>\<open>None\<close>, integers
  (unbounded), floats and strings.
\<close>

datatype pyval = PNone | PInt int | PFloat pyfloat | PStr string

datatype error = IndexError | OverflowError | KeyError

definition py_isspace :: "char \<Rightarrow> bool" where
  \<comment> \<open>The characters \<^verbatim>\<open>str.strip()\<close> and \<^verbatim>\<open>str.split()\<close> treat as whitespace:
      TAB..CR, FS..US, space, NEL and the no-break space.\<close>
  "py_isspace c =
     (let n = (of_char c :: nat)
      in (9 \<le> n \<and> n \<le> 13) \<or> (28 \<le> n \<and> n \<le> 32) \<or> n = 133 \<or> n = 160)"

definition py_lower_char :: "char \<Rightarrow> char" where
  \<comment> \<open>\<^verbatim>\<open>str.lower()\<close> on one code point: A..Z and the Latin-1 capitals move by 32.\<close>
  "py_lower_char c =
     (let n = (of_char c :: nat)
      in if (65 \<le> n \<and> n \<le> 90) \<or> (192 \<le> n \<and> n \<le> 222 \<and> n \<noteq> 215)
         then char_of (n + 32) else c)"

definition lower :: "string \<Rightarrow> string" where
  "lower s = map py_lower_char s"

definition lstrip :: "string \<Rightarrow> string" where
  "lstrip s = dropWhile py_isspace s"

definition strip :: "string \<Rightarrow> string" where
  "strip s = rev (lstrip (rev (lstrip s)))"

definition py_in :: "string \<Rightarrow> string \<Rightarrow> bool" where
  \<comment> \<open>\<^verbatim>\<open>v in s\<close> on strings: \<open>v\<close> occurs in \<open>s\<close> as a contiguous run.\<close>
  "py_in v s = sublist v s"

definition is_digit :: "char \<Rightarrow> bool" where
  \<comment> \<open>The regular-expression class \<^verbatim>\<open>\d\<close> on the code points 0..255.\<close>
  "is_digit c = (let n = (of_char c :: nat) in 48 \<le> n \<and> n \<le> 57)"

function split_ws :: "string \<Rightarrow> string list" where
  \<comment> \<open>\<^verbatim>\<open>s.split()\<close>: the maximal runs of non-whitespace, in order.\<close>
  "split_ws s =
     (let t = dropWhile py_isspace s
      in if t = [] then []
         else takeWhile (\<lambda>c. \<not> py_isspace c) t # split_ws (dropWhile (\<lambda>c. \<not> py_isspace c) t))"
  by pat_completeness auto
termination
proof (relation "measure length")
  show "wf (measure length)" by simp
next
  fix s t :: string
  assume t: "t = dropWhile py_isspace s" and ne: "t \<noteq> []"
  from ne obtain c r where cr: "t = c # r" by (cases t) auto
  with t have "\<not> py_isspace c" by (metis dropWhile_eq_Cons_conv)
  then have "dropWhile (\<lambda>c. \<not> py_isspace c) t = dropWhile (\<lambda>c. \<not> py_isspace c) r"
    using cr by simp
  moreover have "length (dropWhile (\<lambda>c. \<not> py_isspace c) r) \<le> length r"
    by (rule length_dropWhile_le)
  moreover have "length t \<le> length s" using t by (simp add: length_dropWhile_le)
  ultimately show "(dropWhile (\<lambda>c. \<not> py_isspace c) t, s) \<in> measure length"
    using cr by simp
qed

declare split_ws.simps [simp del]

section \<open>Configuration constants\<close>

fun str_nat :: "nat \<Rightarrow> string" where
  \<comment> \<open>\<^verbatim>\<open>str(n)\<close> for a non-negative integer: its decimal digits.\<close>
  "str_nat n =
     (if n < 10 then [char_of (48 + n)] else str_nat (n div 10) @ [char_of (48 + n mod 10)])"

declare str_nat.simps [simp del]

definition YEARS :: "string list" where
  \<comment> \<open>\<^verbatim>\<open>[str(y) for y in range(2000, 2025)]\<close>\<close>
  "YEARS = map str_nat [2000..<2025]"

definition REQUIRED_SCHEMA :: "string list" where
  "REQUIRED_SCHEMA =
     [''country'', ''country_serial'', ''metric'', ''unit'', ''sector'', ''sub_sector'',
      ''sub_sub_sector'', ''source_link'', ''source''] @ YEARS"

definition UNIT_MAP :: "(string \<times> string list) list" where
  \<comment> \<open>The dict literal, in insertion order, which is the order \<^verbatim>\<open>.items()\<close> yields.\<close>
  "UNIT_MAP =
     [(''%'', [''%'', ''percent'', ''percentage'']),
      (''GWh'', [''gwh'', ''giga watt hour'', ''gwh '']),
      (''MW'', [''mw'', ''megawatt'']),
      (''kWh per capita'', [''kwh per capita'', ''kwh/capita'', ''kwh per person'']),
      (''kt'', [''kt'', ''kilotonnes'', ''kt ''])]"

section \<open>Unit Normalizer\<close>

fun scan_variants :: "string \<Rightarrow> string list \<Rightarrow> bool" where
  \<comment> \<open>The inner loop \<^verbatim>\<open>for v in variants: if v in s: return canon\<close>; True when it returns.\<close>
  "scan_variants s [] = False"
| "scan_variants s (v # vs) = (if py_in v s then True else scan_variants s vs)"

fun scan_unit_map :: "string \<Rightarrow> (string \<times> string list) list \<Rightarrow> string option" where
  \<comment> \<open>The outer loop \<^verbatim>\<open>for canon, variants in UNIT_MAP.items()\<close>.\<close>
  "scan_unit_map s [] = None"
| "scan_unit_map s ((canon, variants) # rest) =
     (if scan_variants s variants then Some canon else scan_unit_map s rest)"

definition normalize_unit :: "string option \<Rightarrow> string option" where
  \<comment> \<open>\<^verbatim>\<open>unit_raw: Optional[str]\<close>; \<open>None\<close> is Python's \<^verbatim>\<open>None\<close>. Every operation on this
      path is total on strings, so there is no error branch.\<close>
  "normalize_unit unit_raw =
     (case unit_raw of
        None \<Rightarrow> None
      | Some u \<Rightarrow>
          if u = [] then None
          else let s = lower (strip u)
               in if s = [] then None
                  else (case scan_unit_map s UNIT_MAP of
                          Some canon \<Rightarrow> Some canon
                        | None \<Rightarrow>
                            if s \<in> set [''%'', ''percent'', ''percentage''] then Some ''%''
                            else Some (strip u)))"

definition unit_matches :: "string \<Rightarrow> (string \<times> string list) \<Rightarrow> bool" where
  \<comment> \<open>Specification side: the table entry has a variant occurring in the string.\<close>
  "unit_matches s e = (\<exists>v \<in> set (snd e). sublist v s)"

section \<open>Numeric Coercer\<close>

fun bit_length :: "nat \<Rightarrow> nat" where
  "bit_length n = (if n = 0 then 0 else Suc (bit_length (n div 2)))"

declare bit_length.simps [simp del]

definition round_to_double :: "nat \<Rightarrow> nat option" where
  \<comment> \<open>The magnitude of \<^verbatim>\<open>float(n)\<close> for an integer: exact up to 53 bits, beyond that
      rounded to 53 significant bits, ties to even; \<open>None\<close> where the rounded value
      leaves the double range and CPython raises \<^verbatim>\<open>OverflowError\<close>.\<close>
  "round_to_double m =
     (let l = bit_length m
      in if l \<le> 53 then Some m
         else let sh = l - 53;
                  q = m div 2 ^ sh;
                  r = m mod 2 ^ sh;
                  half = 2 ^ (sh - 1);
                  q' = (if r > half \<or> (r = half \<and> odd q) then q + 1 else q);
                  v = q' * 2 ^ sh
              in if v \<ge> 2 ^ 1024 then None else Some v)"

definition float_of_int :: "int \<Rightarrow> error + pyfloat" where
  \<comment> \<open>\<^verbatim>\<open>float(n)\<close>, and the conversion \<^verbatim>\<open>math.isnan(n)\<close> performs first, on an integer.\<close>
  "float_of_int n =
     (case round_to_double (nat \<bar>n\<bar>) of
        None \<Rightarrow> Inl OverflowError
      | Some v \<Rightarrow> Inr (Fin (of_int (sgn n * int v))))"

definition match_alt1 :: "string \<Rightarrow> string option" where
  \<comment> \<open>The first alternative \<^verbatim>\<open>[-+]?\d*\.\d+\<close> anchored at the head of the string: the
      text matched, if any. Each quantifier is greedy and no shorter choice can succeed.\<close>
  "match_alt1 s =
     (let sg = (case s of c # _ \<Rightarrow> if c = CHR ''-'' \<or> c = CHR ''+'' then [c] else [] | [] \<Rightarrow> []);
          r = drop (length sg) s;
          ds = takeWhile is_digit r
      in case dropWhile is_digit r of
           [] \<Rightarrow> None
         | c # r' \<Rightarrow>
             if c = CHR ''.'' \<and> takeWhile is_digit r' \<noteq> []
             then Some (sg @ ds @ [c] @ takeWhile is_digit r')
             else None)"

definition match_alt2 :: "string \<Rightarrow> string option" where
  \<comment> \<open>The second alternative \<^verbatim>\<open>\d+\<close> anchored at the head of the string.\<close>
  "match_alt2 s = (let ds = takeWhile is_digit s in if ds = [] then None else Some ds)"

fun re_search :: "string \<Rightarrow> string option" where
  \<comment> \<open>\<^verbatim>\<open>re.search(r"[-+]?\d*\.\d+|\d+", s)\<close>: the leftmost start wins, and at one start
      the first alternative is tried before the second. The result is \<^verbatim>\<open>m.group(0)\<close>.\<close>
  "re_search [] = None"
| "re_search (c # s) =
     (case match_alt1 (c # s) of
        Some m \<Rightarrow> Some m
      | None \<Rightarrow> (case match_alt2 (c # s) of Some m \<Rightarrow> Some m | None \<Rightarrow> re_search s))"

definition coerce_text :: "(string \<Rightarrow> pyfloat option) \<Rightarrow> string \<Rightarrow> error + pyfloat option" where
  \<comment> \<open>Lines 105 to 122, from \<^verbatim>\<open>s = str(x).strip()\<close> on. The parameter \<open>fl\<close> is the builtin
      \<^verbatim>\<open>float\<close> on a string, \<open>None\<close> where it raises \<^verbatim>\<open>ValueError\<close>; both calls sit inside
      a \<^verbatim>\<open>try\<close> whose handler catches it. \<^verbatim>\<open>s.split()[0]\<close> is outside the \<^verbatim>\<open>try\<close>.\<close>
  "coerce_text fl x_str =
     (let s = strip x_str
      in if s = [] \<or> lower s \<in> set [''nan'', ''n/a'', ''na''] then Inr None
         else let s1 = filter (\<lambda>c. c \<noteq> CHR '','') s
              in case split_ws s1 of
                   [] \<Rightarrow> Inl IndexError
                 | tok # _ \<Rightarrow>
                     (case fl tok of
                        Some f \<Rightarrow> Inr (Some f)
                      | None \<Rightarrow>
                          (case re_search tok of
                             Some m \<Rightarrow> (case fl m of Some f \<Rightarrow> Inr (Some f) | None \<Rightarrow> Inr None)
                           | None \<Rightarrow> Inr None)))"

definition to_number_safe :: "(string \<Rightarrow> pyfloat option) \<Rightarrow> pyval \<Rightarrow> error + pyfloat option" where
  \<comment> \<open>An integer passes \<^verbatim>\<open>isinstance(x, (int, float))\<close>, then \<^verbatim>\<open>math.isnan\<close> converts it and
      is false. A float passes unless it is not-a-number, whose \<^verbatim>\<open>str\<close> is \<^verbatim>\<open>nan\<close>.\<close>
  "to_number_safe fl x =
     (case x of
        PNone \<Rightarrow> Inr None
      | PInt n \<Rightarrow> (case float_of_int n of Inl e \<Rightarrow> Inl e | Inr f \<Rightarrow> Inr (Some f))
      | PFloat f \<Rightarrow> if f \<noteq> NaN then Inr (Some f) else coerce_text fl ''nan''
      | PStr s \<Rightarrow> coerce_text fl s)"

definition nat_of_digits :: "string \<Rightarrow> nat" where
  "nat_of_digits ds = foldl (\<lambda>a c. 10 * a + (of_char c - 48)) 0 ds"

definition int_literal_float :: "string \<Rightarrow> pyfloat option" where
  \<comment> \<open>The builtin \<^verbatim>\<open>float\<close> restricted to plain integer literals with an optional sign, where
      its value is that of \<open>float_of_int\<close>, or an infinity beyond the double range. It instantiates the parameter \<open>fl\<close> where a
      property is run on concrete input; every property is proved for all \<open>fl\<close>.\<close>
  "int_literal_float s =
     (let sg = (case s of c # _ \<Rightarrow> if c = CHR ''-'' \<or> c = CHR ''+'' then [c] else [] | [] \<Rightarrow> []);
          ds = drop (length sg) s
      in if ds \<noteq> [] \<and> list_all is_digit ds
         then (case float_of_int ((if sg = ''-'' then - 1 else 1) * int (nat_of_digits ds)) of
                 Inl e \<Rightarrow> Some (if sg = ''-'' then NegInf else PosInf) | Inr f \<Rightarrow> Some f)
         else None)"

section \<open>Schema Normalizer\<close>

text \<open>
  The raw table is a pandas \<^verbatim>\<open>DataFrame\<close>: its column labels, which are distinct strings, and
  its rows, each holding one cell per column. A cell is text or \<^verbatim>\<open>None\<close>, as the loader
  produces them (\<^verbatim>\<open>dtype=str\<close>, missing values replaced). A document is a Python dict in
  insertion order.
\<close>

type_synonym cell = "string option"

record dataframe =
  columns :: "string list"
  rows :: "cell list list"

type_synonym doc = "(string \<times> pyval) list"

definition row_get :: "string list \<Rightarrow> cell list \<Rightarrow> string \<Rightarrow> cell" where
  \<comment> \<open>\<^verbatim>\<open>row.get(c)\<close>, and \<^verbatim>\<open>row[c]\<close> for a label of the frame: the cell under the label,
      \<^verbatim>\<open>None\<close> when there is none.\<close>
  "row_get cols r c = (case map_of (zip cols r) c of Some v \<Rightarrow> v | None \<Rightarrow> None)"

definition truthy :: "cell \<Rightarrow> bool" where
  \<comment> \<open>Python truth of a cell: neither \<^verbatim>\<open>None\<close> nor the empty string.\<close>
  "truthy v = (case v of None \<Rightarrow> False | Some s \<Rightarrow> s \<noteq> [])"

definition nonblank :: "cell \<Rightarrow> bool" where
  \<comment> \<open>\<^verbatim>\<open>v and str(v).strip()\<close>\<close>
  "nonblank v = (case v of None \<Rightarrow> False | Some s \<Rightarrow> s \<noteq> [] \<and> strip s \<noteq> [])"

definition clean :: "cell \<Rightarrow> cell" where
  \<comment> \<open>\<^verbatim>\<open>str(v).strip() if v and v != "None" else None\<close>\<close>
  "clean v = (case v of None \<Rightarrow> None
              | Some s \<Rightarrow> if s \<noteq> [] \<and> s \<noteq> ''None'' then Some (strip s) else None)"

definition val_of_cell :: "cell \<Rightarrow> pyval" where
  "val_of_cell v = (case v of None \<Rightarrow> PNone | Some s \<Rightarrow> PStr s)"

definition lc_map :: "string list \<Rightarrow> (string \<times> string) list" where
  \<comment> \<open>\<^verbatim>\<open>{c.lower(): c for c in df_raw.columns}\<close>: a key keeps the place of its first
      insertion and takes the value of its last.\<close>
  "lc_map cols = fold (\<lambda>c m. AList.update (lower c) c m) cols []"

definition is_metric_name :: "string \<Rightarrow> bool" where
  "is_metric_name k =
     list_ex (\<lambda>x. py_in x k) [''metric'', ''indicator'', ''series'', ''name'', ''variable'']"

definition metric_candidates :: "string list \<Rightarrow> string list" where
  "metric_candidates cols = filter is_metric_name (map fst (lc_map cols))"

definition unit_candidates :: "string list \<Rightarrow> string list" where
  "unit_candidates cols =
     filter (\<lambda>k. py_in ''unit'' k \<or> py_in ''measure'' k) (map fst (lc_map cols))"

definition country_candidates :: "string list \<Rightarrow> string list" where
  "country_candidates cols = filter (\<lambda>k. py_in ''country'' k) (map fst (lc_map cols))"

definition has_year_cols :: "string list \<Rightarrow> bool" where
  "has_year_cols cols = list_ex (\<lambda>y. y \<in> set cols) YEARS"

definition lc_index :: "string list \<Rightarrow> string \<Rightarrow> error + string" where
  \<comment> \<open>The subscript \<^verbatim>\<open>lc_map[k]\<close>, which raises on a missing key.\<close>
  "lc_index cols k = (case map_of (lc_map cols) k of None \<Rightarrow> Inl KeyError | Some c \<Rightarrow> Inr c)"

definition first_candidate_cell :: "string list \<Rightarrow> cell list \<Rightarrow> string \<Rightarrow> error + cell" where
  \<comment> \<open>\<^verbatim>\<open>row[lc_map[k]] if lc_map[k] in row else None\<close>\<close>
  "first_candidate_cell cols r k =
     (case lc_index cols k of
        Inl e \<Rightarrow> Inl e
      | Inr c \<Rightarrow> Inr (if c \<in> set cols then row_get cols r c else None))"

definition raw_country :: "string list \<Rightarrow> cell list \<Rightarrow> error + cell" where
  "raw_country cols r =
     (case country_candidates cols of
        k # _ \<Rightarrow> first_candidate_cell cols r k
      | [] \<Rightarrow> Inr (if ''country'' \<in> set cols then row_get cols r ''country'' else None))"

fun metric_column :: "string list \<Rightarrow> string list \<Rightarrow> string option" where
  \<comment> \<open>The loop \<^verbatim>\<open>for m in metric_candidates: if lc_map.get(m): ...; break\<close>: the
      column whose cell it reads, if it reads one.\<close>
  "metric_column cols [] = None"
| "metric_column cols (m # ms) =
     (case map_of (lc_map cols) m of
        Some c \<Rightarrow> if c \<noteq> [] then Some c else metric_column cols ms
      | None \<Rightarrow> metric_column cols ms)"

fun fallback_metric :: "string list \<Rightarrow> cell list \<Rightarrow> cell \<Rightarrow> string list \<Rightarrow> cell" where
  \<comment> \<open>The loop over \<^verbatim>\<open>df_raw.columns\<close> of lines 175 to 183; the third argument is the
      current value of \<^verbatim>\<open>metric\<close>, which every column tried overwrites.\<close>
  "fallback_metric cols r metric [] = metric"
| "fallback_metric cols r metric (c # cs) =
     (if c \<in> set YEARS then fallback_metric cols r metric cs
      else if lower c \<in> set [''source'', ''source_link'', ''unit'', ''country'', ''country_serial'']
      then fallback_metric cols r metric cs
      else let metric' = row_get cols r c
           in if nonblank metric' then metric' else fallback_metric cols r metric' cs)"

definition raw_metric :: "string list \<Rightarrow> cell list \<Rightarrow> cell" where
  "raw_metric cols r =
     (let m0 = (case metric_column cols (metric_candidates cols) of
                  Some c \<Rightarrow> row_get cols r c | None \<Rightarrow> None);
          m1 = (if \<not> truthy m0 \<and> ''metric'' \<in> set cols then row_get cols r ''metric'' else m0)
      in if \<not> truthy m1 \<and> length cols > 0 then fallback_metric cols r m1 cols else m1)"

definition raw_unit :: "string list \<Rightarrow> cell list \<Rightarrow> error + cell" where
  "raw_unit cols r =
     (case unit_candidates cols of
        k # _ \<Rightarrow> first_candidate_cell cols r k
      | [] \<Rightarrow> Inr (if ''unit'' \<in> set cols then row_get cols r ''unit'' else None))"

definition infer_country_serial :: "(string \<Rightarrow> int) \<Rightarrow> cell \<Rightarrow> pyval" where
  \<comment> \<open>The parameter is the builtin \<^verbatim>\<open>hash\<close> on strings.\<close>
  "infer_country_serial hash country_name =
     (case country_name of
        None \<Rightarrow> PNone
      | Some s \<Rightarrow> if s = [] then PNone else PInt (\<bar>hash s\<bar> mod 100000))"

definition copy_field :: "string list \<Rightarrow> cell list \<Rightarrow> string \<Rightarrow> pyval" where
  \<comment> \<open>\<^verbatim>\<open>row.get(k) if k in row else None\<close>\<close>
  "copy_field cols r k = (if k \<in> set cols then val_of_cell (row_get cols r k) else PNone)"

definition base_doc ::
  "(string \<Rightarrow> int) \<Rightarrow> string list \<Rightarrow> cell list \<Rightarrow> cell \<Rightarrow> cell \<Rightarrow> cell \<Rightarrow> doc" where
  "base_doc hash cols r country metric unit =
     [(''country'', val_of_cell country),
      (''country_serial'', infer_country_serial hash country),
      (''metric'', val_of_cell metric),
      (''unit'', val_of_cell unit),
      (''sector'', copy_field cols r ''sector''),
      (''sub_sector'', copy_field cols r ''sub_sector''),
      (''sub_sub_sector'', copy_field cols r ''sub_sub_sector''),
      (''source_link'', val_of_cell (row_get cols r ''source_link'')),
      (''source'', if ''source'' \<in> set cols then val_of_cell (row_get cols r ''source'')
                   else PStr ''Africa Energy Portal'')]"

definition number_value ::
  "(string \<Rightarrow> pyfloat option) \<Rightarrow> cell \<Rightarrow> error + pyval" where
  \<comment> \<open>\<^verbatim>\<open>to_number_safe(v)\<close> as a document value.\<close>
  "number_value fl v =
     (case to_number_safe fl (val_of_cell v) of
        Inl e \<Rightarrow> Inl e
      | Inr None \<Rightarrow> Inr PNone
      | Inr (Some f) \<Rightarrow> Inr (PFloat f))"

definition year_value ::
  "(string \<Rightarrow> pyfloat option) \<Rightarrow> string list \<Rightarrow> cell list \<Rightarrow> string \<Rightarrow> error + pyval" where
  \<comment> \<open>One turn of the loop over \<^verbatim>\<open>YEARS\<close> in a wide table: the column named by the year,
      else the first column whose name contains it.\<close>
  "year_value fl cols r y =
     (if y \<in> set cols then number_value fl (row_get cols r y)
      else (case find (\<lambda>c. py_in y c) cols of
              Some c \<Rightarrow> number_value fl (row_get cols r c)
            | None \<Rightarrow> Inr PNone))"

fun year_values ::
  "(string \<Rightarrow> pyfloat option) \<Rightarrow> string list \<Rightarrow> cell list \<Rightarrow> string list \<Rightarrow> doc \<Rightarrow> error + doc" where
  \<comment> \<open>The loop \<^verbatim>\<open>for y in YEARS: year_values[y] = ...\<close>, stopping where a turn raises.\<close>
  "year_values fl cols r [] acc = Inr acc"
| "year_values fl cols r (y # ys) acc =
     (case year_value fl cols r y of
        Inl e \<Rightarrow> Inl e
      | Inr v \<Rightarrow> year_values fl cols r ys (AList.update y v acc))"

definition dict_update :: "doc \<Rightarrow> doc \<Rightarrow> doc" where
  \<comment> \<open>\<^verbatim>\<open>doc.update(other)\<close>\<close>
  "dict_update d other = fold (\<lambda>(k, v) m. AList.update k v m) other d"

definition keep_doc :: "doc \<Rightarrow> bool" where
  \<comment> \<open>\<^verbatim>\<open>doc["metric"] and doc["metric"].strip()\<close>\<close>
  "keep_doc d = (case map_of d ''metric'' of Some (PStr s) \<Rightarrow> s \<noteq> [] \<and> strip s \<noteq> [] | _ \<Rightarrow> False)"

definition normalize_row ::
  "(string \<Rightarrow> pyfloat option) \<Rightarrow> (string \<Rightarrow> int) \<Rightarrow> string list \<Rightarrow> cell list \<Rightarrow> error + doc" where
  \<comment> \<open>The body of the loop over the rows, up to the assembled document.\<close>
  "normalize_row fl hash cols r =
     (case raw_country cols r of
        Inl e \<Rightarrow> Inl e
      | Inr c0 \<Rightarrow>
          (let country = clean c0;
               metric = clean (raw_metric cols r)
           in case raw_unit cols r of
                Inl e \<Rightarrow> Inl e
              | Inr unit_raw \<Rightarrow>
                  (let base = base_doc hash cols r country metric (normalize_unit unit_raw)
                   in case (if has_year_cols cols then year_values fl cols r YEARS []
                            else Inr (map (\<lambda>y. (y, PNone)) YEARS)) of
                        Inl e \<Rightarrow> Inl e
                      | Inr yv \<Rightarrow> Inr (dict_update base yv))))"

fun normalize_rows ::
  "(string \<Rightarrow> pyfloat option) \<Rightarrow> (string \<Rightarrow> int) \<Rightarrow> string list \<Rightarrow> cell list list \<Rightarrow> doc list
     \<Rightarrow> error + doc list" where
  \<comment> \<open>The loop over \<^verbatim>\<open>df_raw.iterrows()\<close>; the last argument is \<^verbatim>\<open>docs\<close> so far. An
      exception in one row ends the call.\<close>
  "normalize_rows fl hash cols [] docs = Inr docs"
| "normalize_rows fl hash cols (r # rs) docs =
     (case normalize_row fl hash cols r of
        Inl e \<Rightarrow> Inl e
      | Inr d \<Rightarrow> normalize_rows fl hash cols rs (if keep_doc d then docs @ [d] else docs))"

definition build_normalized_docs ::
  "(string \<Rightarrow> pyfloat option) \<Rightarrow> (string \<Rightarrow> int) \<Rightarrow> dataframe \<Rightarrow> error + doc list" where
  "build_normalized_docs fl hash df_raw = normalize_rows fl hash (columns df_raw) (rows df_raw) []"

definition metric_column_by_priority :: "string list \<Rightarrow> string option" where
  \<comment> \<open>Specification side: the selection as the specification words it. The patterns are
      tried in their enumeration order, and for the first pattern that some column
      matches, the first such column in raw column order is taken.\<close>
  "metric_column_by_priority cols =
     (case find (\<lambda>p. list_ex (\<lambda>c. py_in p (lower c)) cols)
             [''metric'', ''indicator'', ''series'', ''name'', ''variable''] of
        None \<Rightarrow> None
      | Some p \<Rightarrow> find (\<lambda>c. py_in p (lower c)) cols)"

section \<open>Upsert Engine\<close>

datatype write_op = ReplaceOne (op_filter: doc) (replacement: doc) (upsert: bool)

definition py_truthy :: "pyval \<Rightarrow> bool" where
  "py_truthy v =
     (case v of PNone \<Rightarrow> False | PInt n \<Rightarrow> n \<noteq> 0 | PFloat f \<Rightarrow> f \<noteq> Fin 0 | PStr s \<Rightarrow> s \<noteq> [])"

definition dict_get :: "doc \<Rightarrow> string \<Rightarrow> pyval" where
  \<comment> \<open>\<^verbatim>\<open>d.get(k)\<close>\<close>
  "dict_get d k = (case map_of d k of None \<Rightarrow> PNone | Some v \<Rightarrow> v)"

definition dict_index :: "doc \<Rightarrow> string \<Rightarrow> error + pyval" where
  \<comment> \<open>\<^verbatim>\<open>d[k]\<close>\<close>
  "dict_index d k = (case map_of d k of None \<Rightarrow> Inl KeyError | Some v \<Rightarrow> Inr v)"

definition setdefault :: "string \<Rightarrow> pyval \<Rightarrow> doc \<Rightarrow> doc" where
  \<comment> \<open>\<^verbatim>\<open>d.setdefault(k, v)\<close>, as the dict it leaves.\<close>
  "setdefault k v d = (case map_of d k of None \<Rightarrow> d @ [(k, v)] | Some _ \<Rightarrow> d)"

definition ensure_schema :: "doc \<Rightarrow> doc" where
  \<comment> \<open>\<^verbatim>\<open>for k in REQUIRED_SCHEMA: d.setdefault(k, None)\<close>. The source updates the
      caller's dict in place; the model returns it.\<close>
  "ensure_schema d = fold (\<lambda>k m. setdefault k PNone m) REQUIRED_SCHEMA d"

definition match_key :: "doc \<Rightarrow> error + doc" where
  \<comment> \<open>Lines 250 to 253: the filter of the replace operation.\<close>
  "match_key d =
     (if py_truthy (dict_get d ''country'')
      then (case dict_index d ''country'' of
              Inl e \<Rightarrow> Inl e
            | Inr c \<Rightarrow> (case dict_index d ''metric'' of
                         Inl e \<Rightarrow> Inl e
                       | Inr m \<Rightarrow> Inr [(''country'', c), (''metric'', m)]))
      else (case dict_index d ''metric'' of
              Inl e \<Rightarrow> Inl e
            | Inr m \<Rightarrow> Inr [(''metric'', m), (''source_link'', dict_get d ''source_link'')]))"

definition natural_key :: "doc \<Rightarrow> doc" where
  \<comment> \<open>The filter in closed form: country and metric when the country is true in Python's
      sense (neither \<^verbatim>\<open>None\<close> nor empty nor zero), else metric and source link.\<close>
  "natural_key d =
     (if py_truthy (dict_get d ''country'')
      then [(''country'', dict_get d ''country''), (''metric'', dict_get d ''metric'')]
      else [(''metric'', dict_get d ''metric''), (''source_link'', dict_get d ''source_link'')])"

fun build_ops :: "doc list \<Rightarrow> write_op list \<Rightarrow> error + write_op list" where
  \<comment> \<open>The loop \<^verbatim>\<open>for d in docs\<close>; the second argument is \<^verbatim>\<open>ops\<close> so far.\<close>
  "build_ops [] ops = Inr ops"
| "build_ops (d # ds) ops =
     (let d' = ensure_schema d
      in case match_key d' of
           Inl e \<Rightarrow> Inl e
         | Inr key \<Rightarrow> build_ops ds (ops @ [ReplaceOne key d' True]))"

definition upsert_normalized_docs ::
  "('s \<Rightarrow> write_op list \<Rightarrow> 's \<times> nat \<times> nat) \<Rightarrow> 's \<Rightarrow> doc list \<Rightarrow> error + 's \<times> nat \<times> nat" where
  \<comment> \<open>The collection is a state \<open>coll\<close> of any type with its method \<^verbatim>\<open>bulk_write\<close>, which
      returns the new state and the counts \<^verbatim>\<open>upserted_count\<close> and \<^verbatim>\<open>modified_count\<close>. The
      store itself is outside the repository.\<close>
  "upsert_normalized_docs bulk_write coll docs =
     (case build_ops docs [] of
        Inl e \<Rightarrow> Inl e
      | Inr ops \<Rightarrow> if ops = [] then Inr (coll, 0, 0) else Inr (bulk_write coll ops))"

section \<open>Validation Reporter\<close>

definition py_format :: "(rat \<Rightarrow> string) \<Rightarrow> pyval \<Rightarrow> string" where
  \<comment> \<open>A value inside an f-string. The parameter is \<^verbatim>\<open>repr\<close> on a finite float.\<close>
  "py_format repr v =
     (case v of
        PNone \<Rightarrow> ''None''
      | PInt n \<Rightarrow> (if n < 0 then ''-'' @ str_nat (nat (- n)) else str_nat (nat n))
      | PFloat f \<Rightarrow> (case f of Fin r \<Rightarrow> repr r | PosInf \<Rightarrow> ''inf'' | NegInf \<Rightarrow> ''-inf'' | NaN \<Rightarrow> ''nan'')
      | PStr s \<Rightarrow> s)"

definition report_key :: "(rat \<Rightarrow> string) \<Rightarrow> doc \<Rightarrow> string" where
  \<comment> \<open>\<^verbatim>\<open>f"{d.get('country')}||{d.get('metric')}"\<close>\<close>
  "report_key repr d = py_format repr (dict_get d ''country'') @ ''||'' @ py_format repr (dict_get d ''metric'')"

definition missing :: "doc \<Rightarrow> string list" where
  \<comment> \<open>\<^verbatim>\<open>[y for y in YEARS if d.get(y) is None]\<close>\<close>
  "missing d = filter (\<lambda>y. dict_get d y = PNone) YEARS"

fun missing_years ::
  "(rat \<Rightarrow> string) \<Rightarrow> doc list \<Rightarrow> (string \<times> string list) list \<Rightarrow> (string \<times> string list) list" where
  \<comment> \<open>The loop of lines 279 to 283; the last argument is the dict \<^verbatim>\<open>missing_years\<close> so far.\<close>
  "missing_years repr [] acc = acc"
| "missing_years repr (d # ds) acc =
     missing_years repr ds
       (if missing d \<noteq> [] then AList.update (report_key repr d) (missing d) acc else acc)"

datatype report_value = RStr string | RCount nat | RMissing "(string \<times> string list) list"

definition validate_collection :: "(rat \<Rightarrow> string) \<Rightarrow> doc list \<Rightarrow> (string \<times> report_value) list" where
  \<comment> \<open>The argument is \<^verbatim>\<open>list(coll.find({}))\<close>. The report is given up to its entry
      \<^verbatim>\<open>missing_years\<close>; the entries after it are computed from further queries to the store.\<close>
  "validate_collection repr docs =
     (if docs = [] then [(''error'', RStr ''no documents found in final collection'')]
      else [(''total_documents'', RCount (length docs)),
            (''missing_years'', RMissing (missing_years repr docs []))])"

definition sample_hash :: "string \<Rightarrow> int" where
  \<comment> \<open>A stand-in for the builtin \<^verbatim>\<open>hash\<close> where a property is run on concrete input; every
      property is proved for all hash functions.\<close>
  "sample_hash s = int (length s)"


definition sample_frame :: dataframe where
  \<comment> \<open>A wide table of two rows, the second without a usable metric.\<close>
  "sample_frame =
     \<lparr>columns = [''Country'', ''Indicator'', ''Unit'', ''2000'', ''2001 (p)''],
      rows = [[Some ''Kenya'', Some ''Electricity Access'', Some ''%'', Some ''32'',
               Some ''1,035 (est)''],
              [Some ''Mali'', Some ''  '', Some ''MW'', Some ''7'', None]]\<rparr>"

definition sample_doc :: doc where
  \<comment> \<open>The document of the first row of \<open>sample_frame\<close>.\<close>
  "sample_doc =
       [(''country'', PStr ''Kenya''), (''country_serial'', PInt 5),
        (''metric'', PStr ''Electricity Access''), (''unit'', PStr ''%''),
        (''sector'', PNone), (''sub_sector'', PNone), (''sub_sub_sector'', PNone),
        (''source_link'', PNone), (''source'', PStr ''Africa Energy Portal''),
        (''2000'', PFloat (Fin 32)), (''2001'', PFloat (Fin 1035)), (''2002'', PNone),
        (''2003'', PNone), (''2004'', PNone), (''2005'', PNone), (''2006'', PNone),
        (''2007'', PNone), (''2008'', PNone), (''2009'', PNone), (''2010'', PNone),
        (''2011'', PNone), (''2012'', PNone), (''2013'', PNone), (''2014'', PNone),
        (''2015'', PNone), (''2016'', PNone), (''2017'', PNone), (''2018'', PNone),
        (''2019'', PNone), (''2020'', PNone), (''2021'', PNone), (''2022'', PNone),
        (''2023'', PNone), (''2024'', PNone)]"

section \<open>Properties of the Unit Normalizer\<close>

lemma scan_variants_iff: "scan_variants s vs \<longleftrightarrow> (\<exists>v \<in> set vs. sublist v s)"
  by (induction vs) (auto simp: py_in_def)

lemma scan_unit_map_find:
  "scan_unit_map s tbl = map_option fst (find (unit_matches s) tbl)"
  by (induction tbl) (auto simp: scan_variants_iff unit_matches_def)

lemma lower_Nil_iff: "lower s = [] \<longleftrightarrow> s = []"
  by (simp add: lower_def)

lemma percent_matches: "s \<in> set [''%'', ''percent'', ''percentage''] \<Longrightarrow> scan_unit_map s UNIT_MAP = Some ''%''"
  by (auto simp: UNIT_MAP_def py_in_def sublist_code)

text \<open>
  C3. Absent input and input that is empty after trimming give absent. Any other string
  is trimmed and lower-cased, and the canonical unit of the first entry of \<open>UNIT_MAP\<close>,
  in table order, one of whose variants occurs in it is returned; when no entry matches,
  the trimmed original comes back, which is never absent. The result type carries no
  error: no step of the function can raise on a string.
\<close>

theorem normalize_unit_spec:
  "normalize_unit unit_raw =
     (case unit_raw of
        None \<Rightarrow> None
      | Some u \<Rightarrow>
          if strip u = [] then None
          else (case find (unit_matches (lower (strip u))) UNIT_MAP of
                  Some e \<Rightarrow> Some (fst e)
                | None \<Rightarrow> Some (strip u)))"
proof (cases unit_raw)
  case None
  then show ?thesis by (simp add: normalize_unit_def)
next
  case (Some u)
  show ?thesis
  proof (cases "strip u = []")
    case True
    then show ?thesis using Some by (simp add: normalize_unit_def lower_Nil_iff)
  next
    case False
    then have u: "u \<noteq> []" by (auto simp: strip_def lstrip_def)
    show ?thesis
    proof (cases "scan_unit_map (lower (strip u)) UNIT_MAP")
      case None
      then have "lower (strip u) \<notin> set [''%'', ''percent'', ''percentage'']"
        using percent_matches by fastforce
      with None False u Some show ?thesis
        by (simp add: normalize_unit_def lower_Nil_iff scan_unit_map_find Let_def)
    next
      case (Some canon)
      with False u \<open>unit_raw = Some u\<close> show ?thesis
        by (auto simp: normalize_unit_def lower_Nil_iff scan_unit_map_find Let_def
                 split: option.splits)
    qed
  qed
qed

theorem normalize_unit_spec_witness:
  "normalize_unit (Some '' Percent of total '') = Some ''%''
   \<and> normalize_unit (Some '' TJ '') = Some ''TJ''
   \<and> normalize_unit (Some ''   '') = None"
  using normalize_unit_spec [of "Some '' Percent of total ''"]
    normalize_unit_spec [of "Some '' TJ ''"] normalize_unit_spec [of "Some ''   ''"]
  by (simp add: unit_matches_def UNIT_MAP_def lower_def py_lower_char_def strip_def lstrip_def
        py_isspace_def sublist_code char_of_def bit_Suc_0_iff)

section \<open>Properties of the Numeric Coercer\<close>

lemma split_ws_Nil: "split_ws [] = []"
  by (subst split_ws.simps) simp

lemma bit_length_le: "m < 2 ^ k \<Longrightarrow> bit_length m \<le> k"
proof (induction k arbitrary: m)
  case 0
  then show ?case by (simp add: bit_length.simps)
next
  case (Suc k)
  then have "m div 2 < 2 ^ k" by auto
  then have "bit_length (m div 2) \<le> k" by (rule Suc.IH)
  then show ?case by (subst bit_length.simps) simp
qed

lemma float_of_int_exact:
  assumes "\<bar>n\<bar> < 2 ^ 53"
  shows "float_of_int n = Inr (Fin (of_int n))"
proof -
  have "nat \<bar>n\<bar> < 2 ^ 53" using assms by (simp add: nat_less_iff)
  then have "bit_length (nat \<bar>n\<bar>) \<le> 53" by (rule bit_length_le)
  then have "round_to_double (nat \<bar>n\<bar>) = Some (nat \<bar>n\<bar>)"
    by (simp add: round_to_double_def)
  moreover have "sgn n * int (nat \<bar>n\<bar>) = n" by (simp add: mult_sgn_abs)
  ultimately show ?thesis by (simp add: float_of_int_def)
qed

text \<open>
  C2. The claim is that the coercer returns a float or absent on every input and never
  raises. On the string consisting of one comma the code raises: the string is not empty
  after trimming, removing the commas leaves the empty string, \<^verbatim>\<open>split()\<close> of it is the
  empty list, and the index 0 is read outside the \<^verbatim>\<open>try\<close>. This holds whatever the
  builtin \<^verbatim>\<open>float\<close> does.
\<close>

theorem to_number_safe_comma_raises:
  "to_number_safe fl (PStr '','') = Inl IndexError"
  by (simp add: to_number_safe_def coerce_text_def strip_def lstrip_def py_isspace_def
        lower_def py_lower_char_def split_ws_Nil)

text \<open>
  C4, as the claim states it, fails: an infinite float passes the guard
  \<^verbatim>\<open>not math.isnan(x)\<close> and is returned, not turned into absent.
\<close>

theorem to_number_safe_inf_counterexample:
  "to_number_safe int_literal_float (PFloat PosInf) = Inr (Some PosInf)
   \<and> to_number_safe int_literal_float (PFloat PosInf) \<noteq> Inr None"
  by (simp add: to_number_safe_def)

text \<open>
  C4, amended. A float that is not not-a-number, finite or infinite, is returned as it is;
  not-a-number gives absent; an integer that \<^verbatim>\<open>float\<close> converts is returned converted, and
  below \<open>2 ^ 53\<close> in magnitude the conversion is exact.
\<close>

theorem to_number_safe_numeric:
  "to_number_safe fl (PFloat NaN) = Inr None
   \<and> (f \<noteq> NaN \<longrightarrow> to_number_safe fl (PFloat f) = Inr (Some f))
   \<and> (float_of_int n = Inr g \<longrightarrow> to_number_safe fl (PInt n) = Inr (Some g))
   \<and> (\<bar>n\<bar> < 2 ^ 53 \<longrightarrow> to_number_safe fl (PInt n) = Inr (Some (Fin (of_int n))))"
proof -
  have nan: "to_number_safe fl (PFloat NaN) = Inr None"
    by (simp add: to_number_safe_def coerce_text_def strip_def lstrip_def py_isspace_def
          lower_def py_lower_char_def)
  have conv: "to_number_safe fl (PInt n) = Inr (Some g)" if "float_of_int n = Inr g" for g
    using that by (simp add: to_number_safe_def)
  have small: "to_number_safe fl (PInt n) = Inr (Some (Fin (of_int n)))" if "\<bar>n\<bar> < 2 ^ 53"
    using that by (simp add: conv float_of_int_exact)
  show ?thesis using nan conv small by (simp add: to_number_safe_def)
qed

theorem to_number_safe_numeric_witness:
  "to_number_safe int_literal_float (PFloat NaN) = Inr None
   \<and> NegInf \<noteq> NaN
   \<and> to_number_safe int_literal_float (PFloat NegInf) = Inr (Some NegInf)
   \<and> float_of_int 7 = Inr (Fin 7)
   \<and> \<bar>7 :: int\<bar> < 2 ^ 53
   \<and> to_number_safe int_literal_float (PInt 7) = Inr (Some (Fin 7))"
proof -
  have e: "float_of_int 7 = Inr (Fin 7)"
    using float_of_int_exact [of 7] by simp
  show ?thesis
    using to_number_safe_numeric [of int_literal_float NegInf 7 "Fin 7"] e by simp
qed

section \<open>The constants evaluated\<close>

lemmas char_eval = char_of_def bit_Suc_0_iff

lemmas string_eval = lower_def py_lower_char_def strip_def lstrip_def py_isspace_def
  py_in_def sublist_code char_eval

lemma YEARS_eq:
  "YEARS =
    [''2000'', ''2001'', ''2002'', ''2003'', ''2004'', ''2005'', ''2006'', ''2007'',
     ''2008'', ''2009'', ''2010'', ''2011'', ''2012'', ''2013'', ''2014'', ''2015'',
     ''2016'', ''2017'', ''2018'', ''2019'', ''2020'', ''2021'', ''2022'', ''2023'',
     ''2024'']"
  by (simp add: YEARS_def upt_rec [of "numeral _"] str_nat.simps char_eval)

lemma distinct_REQUIRED_SCHEMA: "distinct REQUIRED_SCHEMA"
  by (simp add: REQUIRED_SCHEMA_def YEARS_eq)

section \<open>Properties of the Validation Reporter\<close>

text \<open>
  C8. On a store without documents the reporter returns the mapping whose one entry is the
  error marker; it has no branch that raises. The marker is there exactly when the store
  is empty.
\<close>

theorem validate_collection_empty:
  "validate_collection repr [] = [(''error'', RStr ''no documents found in final collection'')]
   \<and> map_of (validate_collection repr docs) ''error'' =
       (if docs = [] then Some (RStr ''no documents found in final collection'') else None)"
  by (simp add: validate_collection_def)








section \<open>Properties of the Upsert Engine\<close>

lemma map_of_setdefault:
  "map_of (setdefault k v d) k' =
     (case map_of d k' of Some w \<Rightarrow> Some w | None \<Rightarrow> if k' = k then Some v else None)"
  by (auto simp: setdefault_def map_add_def split: option.splits)

lemma keys_setdefault: "fst ` set (setdefault k v d) = insert k (fst ` set d)"
  by (auto simp: setdefault_def map_of_eq_None_iff split: option.splits dest: map_of_SomeD
      intro: rev_image_eqI)

lemma map_of_fold_setdefault:
  "map_of (fold (\<lambda>k m. setdefault k PNone m) ks d) k' =
     (case map_of d k' of Some w \<Rightarrow> Some w | None \<Rightarrow> if k' \<in> set ks then Some PNone else None)"
  by (induction ks arbitrary: d) (auto simp: map_of_setdefault split: option.splits)

lemma keys_fold_setdefault:
  "fst ` set (fold (\<lambda>k m. setdefault k PNone m) ks d) = fst ` set d \<union> set ks"
  by (induction ks arbitrary: d) (auto simp: keys_setdefault)

lemma fold_setdefault_id:
  "set ks \<subseteq> fst ` set d \<Longrightarrow> fold (\<lambda>k m. setdefault k PNone m) ks d = d"
  by (induction ks) (auto simp: setdefault_def map_of_eq_None_iff split: option.splits)

lemma dict_get_ensure_schema: "dict_get (ensure_schema d) k = dict_get d k"
  by (auto simp: dict_get_def ensure_schema_def map_of_fold_setdefault split: option.splits)

lemma keys_ensure_schema: "fst ` set (ensure_schema d) = fst ` set d \<union> set REQUIRED_SCHEMA"
  by (simp add: ensure_schema_def keys_fold_setdefault)

lemma dict_index_ensure_schema:
  "k \<in> set REQUIRED_SCHEMA \<Longrightarrow> dict_index (ensure_schema d) k = Inr (dict_get d k)"
  by (auto simp: dict_index_def dict_get_def ensure_schema_def map_of_fold_setdefault
      split: option.splits)

lemma match_key_ensure_schema: "match_key (ensure_schema d) = Inr (natural_key d)"
  by (simp add: match_key_def natural_key_def dict_get_ensure_schema dict_index_ensure_schema
      REQUIRED_SCHEMA_def)

lemma build_ops_eq:
  "build_ops ds ops = Inr (ops @ map (\<lambda>d. ReplaceOne (natural_key d) (ensure_schema d) True) ds)"
  by (induction ds arbitrary: ops) (auto simp: match_key_ensure_schema Let_def)

text \<open>
  C7, as the claim states it, fails: a document whose country is present as the empty
  string (what the normalizer derives from a cell of blanks) is keyed by metric and source
  link, since the test \<^verbatim>\<open>if d.get("country")\<close> is one of truth, not of presence.
\<close>

theorem upsert_key_counterexample:
  "dict_get [(''country'', PStr []), (''metric'', PStr ''GDP''), (''source_link'', PStr ''u'')]
     ''country'' \<noteq> PNone
   \<and> map_sum id (map op_filter)
       (build_ops [[(''country'', PStr []), (''metric'', PStr ''GDP''),
                    (''source_link'', PStr ''u'')]] []) =
     Inr [[(''metric'', PStr ''GDP''), (''source_link'', PStr ''u'')]]"
  by (simp add: build_ops_eq natural_key_def dict_get_def py_truthy_def)

text \<open>
  C7, amended. For every batch the engine builds, without raising, one replace-with-upsert
  operation per document, in order, and hands them to the store when there is one at least.
  The filter of an operation is country and metric when the document's country is present
  and non-empty, and metric and source link otherwise; its replacement is the whole
  document, every field of the input kept.
\<close>

theorem upsert_key_by_truthy_country:
  "build_ops docs [] = Inr (map (\<lambda>d. ReplaceOne (natural_key d) (ensure_schema d) True) docs)
   \<and> upsert_normalized_docs bulk_write coll docs =
       Inr (if docs = [] then (coll, 0, 0)
            else bulk_write coll
                   (map (\<lambda>d. ReplaceOne (natural_key d) (ensure_schema d) True) docs))
   \<and> (\<forall>k. dict_get (ensure_schema d) k = dict_get d k)"
  by (simp add: upsert_normalized_docs_def build_ops_eq dict_get_ensure_schema)

section \<open>Properties of the Schema Normalizer\<close>

lemma distinct_YEARS: "distinct YEARS"
  by (simp add: YEARS_eq)

lemma year_values_keys:
  "year_values fl cols r ys acc = Inr yv \<Longrightarrow> distinct ys \<Longrightarrow> set ys \<inter> fst ` set acc = {}
   \<Longrightarrow> map fst yv = map fst acc @ ys"
proof (induction ys arbitrary: acc)
  case Nil
  then show ?case by simp
next
  case (Cons y ys)
  from Cons.prems(1) obtain v where v: "year_value fl cols r y = Inr v"
    and rest: "year_values fl cols r ys (AList.update y v acc) = Inr yv"
    by (auto split: sum.splits)
  have fresh: "y \<notin> fst ` set acc" using Cons.prems(3) by auto
  then have keys: "map fst (AList.update y v acc) = map fst acc @ [y]"
    by (simp add: update_keys)
  have "set ys \<inter> fst ` set (AList.update y v acc) = {}"
    using Cons.prems(2,3) by (auto simp: dom_update)
  with Cons.IH [OF rest] Cons.prems(2) keys show ?case by simp
qed

lemma dict_update_keys:
  "distinct (map fst other) \<Longrightarrow> fst ` set other \<inter> fst ` set d = {}
   \<Longrightarrow> map fst (dict_update d other) = map fst d @ map fst other"
proof (induction other arbitrary: d)
  case Nil
  then show ?case by (simp add: dict_update_def)
next
  case (Cons kv other)
  obtain k v where kv: "kv = (k, v)" by (cases kv)
  have fresh: "k \<notin> fst ` set d" using Cons.prems(2) kv by auto
  then have keys: "map fst (AList.update k v d) = map fst d @ [k]"
    by (simp add: update_keys)
  have "fst ` set other \<inter> fst ` set (AList.update k v d) = {}"
    using Cons.prems kv by (auto simp: dom_update)
  with Cons.IH [of "AList.update k v d"] Cons.prems(1) keys kv show ?case
    by (simp add: dict_update_def)
qed

lemma normalize_row_keys:
  assumes "normalize_row fl hash cols r = Inr d"
  shows "map fst d = REQUIRED_SCHEMA"
proof -
  from assms obtain c0 u yv where
    yv: "(if has_year_cols cols then year_values fl cols r YEARS []
          else Inr (map (\<lambda>y. (y, PNone)) YEARS)) = Inr yv"
    and d: "d = dict_update (base_doc hash cols r (clean c0) (clean (raw_metric cols r))
                  (normalize_unit u)) yv"
    by (auto simp: normalize_row_def Let_def split: sum.splits)
  have keys: "map fst yv = YEARS"
  proof (cases "has_year_cols cols")
    case True
    with yv have "year_values fl cols r YEARS [] = Inr yv" by simp
    from year_values_keys [OF this] show ?thesis by (simp add: distinct_YEARS)
  next
    case False
    with yv show ?thesis by (auto simp: comp_def)
  qed
  have ks: "fst ` set yv = set YEARS"
    using arg_cong [OF keys, of set] by simp
  have "map fst d = map fst (base_doc hash cols r (clean c0) (clean (raw_metric cols r))
      (normalize_unit u)) @ map fst yv"
    unfolding d
    by (rule dict_update_keys) (simp_all add: keys ks distinct_YEARS base_doc_def YEARS_eq)
  then show ?thesis by (simp add: keys base_doc_def REQUIRED_SCHEMA_def)
qed

lemma normalize_rows_filter:
  "normalize_rows fl hash cols rs acc = Inr docs \<Longrightarrow>
   \<exists>ds. map (normalize_row fl hash cols) rs = map Inr ds \<and> docs = acc @ filter keep_doc ds"
proof (induction rs arbitrary: acc)
  case Nil
  then show ?case by simp
next
  case (Cons r rs)
  from Cons.prems obtain d where d: "normalize_row fl hash cols r = Inr d"
    and rest: "normalize_rows fl hash cols rs (if keep_doc d then acc @ [d] else acc) = Inr docs"
    by (auto split: sum.splits)
  from Cons.IH [OF rest] obtain ds where
    "map (normalize_row fl hash cols) rs = map Inr ds"
    "docs = (if keep_doc d then acc @ [d] else acc) @ filter keep_doc ds" by blast
  with d have "map (normalize_row fl hash cols) (r # rs) = map Inr (d # ds)
      \<and> docs = acc @ filter keep_doc (d # ds)" by simp
  then show ?case by blast
qed

lemma build_normalized_docs_filter:
  assumes "build_normalized_docs fl hash df = Inr docs"
  shows "\<exists>ds. map (normalize_row fl hash (columns df)) (rows df) = map Inr ds
           \<and> docs = filter keep_doc ds"
  using normalize_rows_filter [OF assms [unfolded build_normalized_docs_def]] by simp

text \<open>
  C5. The claim is that every batch yields one document per record with a metric, the
  others being dropped without error. On a wide table with a year cell holding only a
  comma the code emits nothing: the coercion of that cell raises (the defect shown for the
  Numeric Coercer) and the exception leaves the whole call. This holds whatever the
  builtins \<^verbatim>\<open>float\<close> and \<^verbatim>\<open>hash\<close> do. Where the call does return, its result is the
  documents of the rows with a metric, in order (\<open>build_normalized_docs_filter\<close>).
\<close>

theorem build_normalized_docs_comma_raises:
  "build_normalized_docs fl hash
     \<lparr>columns = [''Indicator'', ''2000''], rows = [[Some ''Access'', Some '','']]\<rparr> =
   Inl IndexError"
  by (simp add: build_normalized_docs_def normalize_row_def raw_country_def
        country_candidates_def lc_map_def raw_unit_def unit_candidates_def has_year_cols_def
        YEARS_eq year_value_def number_value_def val_of_cell_def row_get_def
        to_number_safe_def coerce_text_def split_ws_Nil string_eval)

lemmas normalizer_eval = build_normalized_docs_def normalize_row_def raw_country_def
  country_candidates_def lc_map_def lc_index_def first_candidate_cell_def raw_unit_def
  unit_candidates_def raw_metric_def metric_candidates_def is_metric_name_def truthy_def
  nonblank_def clean_def has_year_cols_def year_value_def number_value_def val_of_cell_def
  row_get_def base_doc_def copy_field_def infer_country_serial_def dict_update_def keep_doc_def
  normalize_unit_def UNIT_MAP_def

lemmas coercer_eval = to_number_safe_def coerce_text_def split_ws.simps int_literal_float_def
  is_digit_def nat_of_digits_def float_of_int_def round_to_double_def bit_length.simps
  match_alt1_def match_alt2_def

lemma sample_frame_docs:
  "build_normalized_docs int_literal_float sample_hash sample_frame = Inr [sample_doc]"
  by (simp add: sample_frame_def sample_doc_def normalizer_eval coercer_eval sample_hash_def
        YEARS_eq string_eval)

lemma sample_doc_keys: "map fst sample_doc = REQUIRED_SCHEMA"
  by (simp add: sample_doc_def REQUIRED_SCHEMA_def YEARS_eq)

lemma ensure_schema_id: "map fst d = REQUIRED_SCHEMA \<Longrightarrow> ensure_schema d = d"
  unfolding ensure_schema_def
  by (rule fold_setdefault_id) (metis set_map subset_refl)

lemma build_normalized_docs_keys:
  assumes "build_normalized_docs fl hash df = Inr docs" and "d \<in> set docs"
  shows "map fst d = REQUIRED_SCHEMA"
proof -
  from build_normalized_docs_filter [OF assms(1)] obtain ds where
    ds: "map (normalize_row fl hash (columns df)) (rows df) = map Inr ds"
    and docs: "docs = filter keep_doc ds" by blast
  from assms(2) docs have "d \<in> set ds" by simp
  then have "Inr d \<in> set (map (normalize_row fl hash (columns df)) (rows df))"
    unfolding ds by simp
  then obtain r where "normalize_row fl hash (columns df) r = Inr d" by auto
  then show ?thesis by (rule normalize_row_keys)
qed

lemma map_of_ensure_schema:
  "map_of (ensure_schema d) k =
     (case map_of d k of
        Some v \<Rightarrow> Some v
      | None \<Rightarrow> if k \<in> set REQUIRED_SCHEMA then Some PNone else None)"
  by (simp add: ensure_schema_def map_of_fold_setdefault)

lemma keys_ensure_schema_exact:
  "fst ` set d \<subseteq> set REQUIRED_SCHEMA \<Longrightarrow> fst ` set (ensure_schema d) = set REQUIRED_SCHEMA"
  by (auto simp: keys_ensure_schema)

text \<open>
  C6. Every document the Schema Normalizer emits has exactly the keys of \<open>REQUIRED_SCHEMA\<close>,
  in that order, so a value that is absent is an entry \<open>PNone\<close> and no key is missing. The
  Upsert Engine never raises and submits, for each document, the document after the loop
  of \<^verbatim>\<open>setdefault\<close>: every entry of the input is kept with its value and every schema key
  the input lacks is added with the value \<open>PNone\<close>. So a document whose keys lie in the
  schema, as those of a NormalizedDocument do, is submitted with exactly the keys of
  \<open>REQUIRED_SCHEMA\<close>; and a batch that comes from the Schema Normalizer is submitted
  unchanged.
\<close>

theorem required_schema_keys:
  "(build_normalized_docs fl hash df = Inr docs \<longrightarrow>
      (\<forall>d \<in> set docs. map fst d = REQUIRED_SCHEMA))
   \<and> (\<exists>ops. build_ops ds [] = Inr ops \<and> map replacement ops = map ensure_schema ds)
   \<and> (\<forall>k. map_of (ensure_schema d) k =
          (case map_of d k of
             Some v \<Rightarrow> Some v
           | None \<Rightarrow> if k \<in> set REQUIRED_SCHEMA then Some PNone else None))
   \<and> (fst ` set d \<subseteq> set REQUIRED_SCHEMA \<longrightarrow>
        fst ` set (ensure_schema d) = set REQUIRED_SCHEMA)
   \<and> (build_normalized_docs fl hash df = Inr docs \<and> build_ops docs [] = Inr ops \<longrightarrow>
      map replacement ops = docs
      \<and> (\<forall>op \<in> set ops. map fst (replacement op) = REQUIRED_SCHEMA))"
proof (intro conjI impI allI)
  assume "build_normalized_docs fl hash df = Inr docs"
  then show "\<forall>d \<in> set docs. map fst d = REQUIRED_SCHEMA"
    using build_normalized_docs_keys by blast
next
  show "\<exists>ops. build_ops ds [] = Inr ops \<and> map replacement ops = map ensure_schema ds"
    by (simp add: build_ops_eq comp_def)
next
  fix k
  show "map_of (ensure_schema d) k =
      (case map_of d k of
         Some v \<Rightarrow> Some v
       | None \<Rightarrow> if k \<in> set REQUIRED_SCHEMA then Some PNone else None)"
    by (rule map_of_ensure_schema)
next
  assume "fst ` set d \<subseteq> set REQUIRED_SCHEMA"
  then show "fst ` set (ensure_schema d) = set REQUIRED_SCHEMA"
    by (rule keys_ensure_schema_exact)
next
  assume a: "build_normalized_docs fl hash df = Inr docs \<and> build_ops docs [] = Inr ops"
  then have keys: "\<forall>d \<in> set docs. map fst d = REQUIRED_SCHEMA"
    using build_normalized_docs_keys by blast
  from a have ops: "ops = map (\<lambda>d. ReplaceOne (natural_key d) (ensure_schema d) True) docs"
    by (simp add: build_ops_eq)
  have "map replacement ops = map ensure_schema docs" by (simp add: ops comp_def)
  also have "\<dots> = docs" using keys by (simp add: ensure_schema_id map_idI)
  finally show r: "map replacement ops = docs" .
  show "\<forall>op \<in> set ops. map fst (replacement op) = REQUIRED_SCHEMA"
  proof
    fix op assume "op \<in> set ops"
    then have "replacement op \<in> set (map replacement ops)" by simp
    with r keys show "map fst (replacement op) = REQUIRED_SCHEMA" by simp
  qed
qed

theorem required_schema_keys_witness:
  "build_normalized_docs int_literal_float sample_hash sample_frame = Inr [sample_doc]
   \<and> map fst sample_doc = REQUIRED_SCHEMA
   \<and> build_ops [sample_doc] [] =
       Inr [ReplaceOne [(''country'', PStr ''Kenya''), (''metric'', PStr ''Electricity Access'')]
              sample_doc True]
   \<and> map replacement
         [ReplaceOne [(''country'', PStr ''Kenya''), (''metric'', PStr ''Electricity Access'')]
            sample_doc True] = [sample_doc]
   \<and> fst ` set [(''metric'', PStr ''GDP''), (''unit'', PStr ''USD'')] \<subseteq> set REQUIRED_SCHEMA
   \<and> fst ` set (ensure_schema [(''metric'', PStr ''GDP''), (''unit'', PStr ''USD'')]) =
       set REQUIRED_SCHEMA
   \<and> map_of (ensure_schema [(''metric'', PStr ''GDP''), (''unit'', PStr ''USD'')]) ''unit'' =
       Some (PStr ''USD'')
   \<and> map_of (ensure_schema [(''metric'', PStr ''GDP''), (''unit'', PStr ''USD'')]) ''2024'' =
       Some PNone"
proof -
  have key: "natural_key sample_doc =
      [(''country'', PStr ''Kenya''), (''metric'', PStr ''Electricity Access'')]"
    by (simp add: natural_key_def dict_get_def py_truthy_def sample_doc_def)
  have ops: "build_ops [sample_doc] [] =
      Inr [ReplaceOne [(''country'', PStr ''Kenya''), (''metric'', PStr ''Electricity Access'')]
             sample_doc True]"
    by (simp add: build_ops_eq key ensure_schema_id sample_doc_keys)
  have sub: "fst ` set [(''metric'', PStr ''GDP''), (''unit'', PStr ''USD'')] \<subseteq> set REQUIRED_SCHEMA"
    by (simp add: REQUIRED_SCHEMA_def)
  have y: "''2024'' \<in> set REQUIRED_SCHEMA"
    by (simp add: REQUIRED_SCHEMA_def YEARS_eq)
  note t = required_schema_keys [of int_literal_float sample_hash sample_frame "[sample_doc]"
      "[sample_doc]" "[(''metric'', PStr ''GDP''), (''unit'', PStr ''USD'')]"
      "[ReplaceOne [(''country'', PStr ''Kenya''), (''metric'', PStr ''Electricity Access'')]
          sample_doc True]"]
  from t sample_frame_docs have n: "map fst sample_doc = REQUIRED_SCHEMA" by simp
  from t sample_frame_docs ops have r: "map replacement
      [ReplaceOne [(''country'', PStr ''Kenya''), (''metric'', PStr ''Electricity Access'')]
         sample_doc True] = [sample_doc]" by simp
  from t sub have e: "fst ` set (ensure_schema [(''metric'', PStr ''GDP''), (''unit'', PStr ''USD'')]) =
      set REQUIRED_SCHEMA" by blast
  from t have v: "\<forall>k. map_of (ensure_schema [(''metric'', PStr ''GDP''), (''unit'', PStr ''USD'')]) k =
      (case map_of [(''metric'', PStr ''GDP''), (''unit'', PStr ''USD'')] k of
         Some v \<Rightarrow> Some v
       | None \<Rightarrow> if k \<in> set REQUIRED_SCHEMA then Some PNone else None)" by blast
  have u: "map_of (ensure_schema [(''metric'', PStr ''GDP''), (''unit'', PStr ''USD'')]) ''unit'' =
      Some (PStr ''USD'')"
    using v by simp
  have z: "map_of (ensure_schema [(''metric'', PStr ''GDP''), (''unit'', PStr ''USD'')]) ''2024'' =
      Some PNone"
    using v y by simp
  show ?thesis using sample_frame_docs n ops r sub e u z by blast
qed

section \<open>The metric column\<close>

lemma map_of_lc_fold:
  "map_of (fold (\<lambda>c m. AList.update (lower c) c m) cols m0) k =
     (if \<exists>c \<in> set cols. lower c = k then Some (last (filter (\<lambda>c. lower c = k) cols))
      else map_of m0 k)"
proof (induction cols arbitrary: m0)
  case Nil
  then show ?case by simp
next
  case (Cons c cols)
  show ?case
    by (auto simp: Cons.IH update_conv' filter_empty_conv)
qed

lemma find_append_single:
  "find P (xs @ [x]) = (case find P xs of Some y \<Rightarrow> Some y | None \<Rightarrow> if P x then Some x else None)"
  by (induction xs) auto

lemma find_keys_fold:
  "find P (map fst (fold (\<lambda>c m. AList.update (lower c) c m) cols m0)) =
     (case find P (map fst m0) of Some k \<Rightarrow> Some k | None \<Rightarrow> find P (map lower cols))"
proof (induction cols arbitrary: m0)
  case Nil
  then show ?case by (simp split: option.splits)
next
  case (Cons c cols)
  show ?case
  proof (cases "lower c \<in> fst ` set m0")
    case True
    then have keys: "map fst (AList.update (lower c) c m0) = map fst m0"
      by (simp add: update_keys)
    have "find P (map fst m0) = None \<Longrightarrow> \<not> P (lower c)"
      using True by (auto simp: find_None_iff)
    then show ?thesis by (auto simp: Cons.IH keys split: option.splits)
  next
    case False
    then have keys: "map fst (AList.update (lower c) c m0) = map fst m0 @ [lower c]"
      by (simp add: update_keys)
    show ?thesis by (auto simp: Cons.IH keys find_append_single split: option.splits)
  qed
qed

lemma find_Some_mem: "find P xs = Some x \<Longrightarrow> x \<in> set xs"
  by (induction xs) (auto split: if_splits)

lemma is_metric_name_nonempty: "is_metric_name k \<Longrightarrow> k \<noteq> []"
  by (auto simp: is_metric_name_def py_in_def)

lemma metric_column_filter:
  assumes "\<And>k. k \<in> set ks \<Longrightarrow> P k \<Longrightarrow> \<exists>c. map_of (lc_map cols) k = Some c \<and> c \<noteq> []"
  shows "metric_column cols (filter P ks) =
     (case find P ks of None \<Rightarrow> None | Some k \<Rightarrow> map_of (lc_map cols) k)"
  using assms
proof (induction ks)
  case Nil
  then show ?case by simp
next
  case (Cons k ks)
  show ?case
  proof (cases "P k")
    case True
    with Cons.prems [of k] obtain c where "map_of (lc_map cols) k = Some c" "c \<noteq> []" by auto
    with True show ?thesis by simp
  next
    case False
    with Cons show ?thesis by simp
  qed
qed

lemma metric_column_closed:
  "metric_column cols (metric_candidates cols) =
     (case find is_metric_name (map lower cols) of
        None \<Rightarrow> None
      | Some k \<Rightarrow> Some (last (filter (\<lambda>c. lower c = k) cols)))"
proof -
  have look: "map_of (lc_map cols) k =
      (if \<exists>c \<in> set cols. lower c = k then Some (last (filter (\<lambda>c. lower c = k) cols)) else None)" for k
    unfolding lc_map_def by (simp add: map_of_lc_fold)
  have keys: "fst ` set (lc_map cols) = lower ` set cols"
  proof -
    have "fst ` set (lc_map cols) = dom (map_of (lc_map cols))"
      by (simp add: dom_map_of_conv_image_fst)
    also have "\<dots> = lower ` set cols" by (auto simp: dom_def look)
    finally show ?thesis .
  qed
  have nonempty: "\<exists>c. map_of (lc_map cols) k = Some c \<and> c \<noteq> []"
    if "k \<in> set (map fst (lc_map cols))" "is_metric_name k" for k
  proof -
    from that(1) keys obtain c0 where c0: "c0 \<in> set cols" "lower c0 = k" by auto
    let ?fs = "filter (\<lambda>c. lower c = k) cols"
    have ne: "?fs \<noteq> []" using c0 by (auto simp: filter_empty_conv)
    then have "last ?fs \<in> set ?fs" by (rule last_in_set)
    then have "lower (last ?fs) = k" by simp
    with is_metric_name_nonempty [OF that(2)] have "last ?fs \<noteq> []"
      by (auto simp: lower_Nil_iff)
    with c0 look [of k] show ?thesis by auto
  qed
  have "metric_column cols (metric_candidates cols) =
      (case find is_metric_name (map fst (lc_map cols)) of
         None \<Rightarrow> None | Some k \<Rightarrow> map_of (lc_map cols) k)"
    unfolding metric_candidates_def by (rule metric_column_filter) (rule nonempty)
  also have "find is_metric_name (map fst (lc_map cols)) = find is_metric_name (map lower cols)"
    unfolding lc_map_def by (simp add: find_keys_fold)
  finally have m: "metric_column cols (metric_candidates cols) =
      (case find is_metric_name (map lower cols) of
         None \<Rightarrow> None | Some k \<Rightarrow> map_of (lc_map cols) k)" .
  show ?thesis
  proof (cases "find is_metric_name (map lower cols)")
    case None
    with m show ?thesis by simp
  next
    case (Some k)
    then have "k \<in> set (map lower cols)" by (rule find_Some_mem)
    then have "\<exists>c \<in> set cols. lower c = k" by auto
    with m Some show ?thesis by (simp add: look)
  qed
qed

lemma filter_same_image:
  "distinct (map f xs) \<Longrightarrow> x \<in> set xs \<Longrightarrow> filter (\<lambda>c. f c = f x) xs = [x]"
  by (induction xs) (auto simp: filter_empty_conv image_iff)

lemma find_map: "find P (map f xs) = map_option f (find (\<lambda>x. P (f x)) xs)"
  by (induction xs) auto

lemma metric_column_distinct:
  assumes "distinct (map lower cols)"
  shows "metric_column cols (metric_candidates cols) = find (\<lambda>c. is_metric_name (lower c)) cols"
proof (cases "find (\<lambda>c. is_metric_name (lower c)) cols")
  case None
  then show ?thesis by (simp add: metric_column_closed find_map)
next
  case (Some c)
  then have "c \<in> set cols" by (rule find_Some_mem)
  with assms have "filter (\<lambda>x. lower x = lower c) cols = [c]" by (rule filter_same_image)
  with Some show ?thesis by (simp add: metric_column_closed find_map)
qed

text \<open>
  C1, as the claim states it, fails. With the columns \<open>Name\<close> and \<open>Metric\<close> in this order the
  code reads the metric from \<open>Name\<close>, the first column in raw order that matches any
  pattern; the enumeration order of the patterns would select \<open>Metric\<close>.
\<close>

theorem metric_column_priority_counterexample:
  "metric_column [''Name'', ''Metric''] (metric_candidates [''Name'', ''Metric'']) = Some ''Name''
   \<and> metric_column_by_priority [''Name'', ''Metric''] = Some ''Metric''
   \<and> raw_metric [''Name'', ''Metric''] [Some ''Plant A'', Some ''Capacity''] = Some ''Plant A''"
  by (simp add: metric_candidates_def lc_map_def is_metric_name_def metric_column_by_priority_def
        raw_metric_def row_get_def truthy_def string_eval)

text \<open>
  C1, amended. The metric column is chosen in raw column order: the lower-cased column
  names are scanned in that order for the first one containing any of the five patterns,
  whichever pattern it is, and the column read is the last one with that lower-cased name.
  When no two columns agree up to case, this is the first column in raw order whose
  lower-cased name contains one of the patterns.
\<close>

theorem metric_column_raw_order:
  "metric_column cols (metric_candidates cols) =
     (case find is_metric_name (map lower cols) of
        None \<Rightarrow> None
      | Some k \<Rightarrow> Some (last (filter (\<lambda>c. lower c = k) cols)))
   \<and> (distinct (map lower cols) \<longrightarrow>
        metric_column cols (metric_candidates cols) =
        find (\<lambda>c. is_metric_name (lower c)) cols)"
  using metric_column_closed metric_column_distinct by blast

theorem metric_column_raw_order_witness:
  "distinct (map lower [''Unit'', ''Series Name'', ''Indicator''])
   \<and> metric_column [''Unit'', ''Series Name'', ''Indicator'']
         (metric_candidates [''Unit'', ''Series Name'', ''Indicator'']) = Some ''Series Name''"
proof -
  have d: "distinct (map lower [''Unit'', ''Series Name'', ''Indicator''])"
    by (simp add: string_eval)
  have f: "find (\<lambda>c. is_metric_name (lower c)) [''Unit'', ''Series Name'', ''Indicator''] =
      Some ''Series Name''"
    by (simp add: is_metric_name_def string_eval)
  have "distinct (map lower [''Unit'', ''Series Name'', ''Indicator'']) \<longrightarrow>
      metric_column [''Unit'', ''Series Name'', ''Indicator'']
        (metric_candidates [''Unit'', ''Series Name'', ''Indicator'']) =
      find (\<lambda>c. is_metric_name (lower c)) [''Unit'', ''Series Name'', ''Indicator'']"
    using metric_column_raw_order [of "[''Unit'', ''Series Name'', ''Indicator'']"]
    by (rule conjunct2)
  from this d have "metric_column [''Unit'', ''Series Name'', ''Indicator'']
        (metric_candidates [''Unit'', ''Series Name'', ''Indicator'']) =
      find (\<lambda>c. is_metric_name (lower c)) [''Unit'', ''Series Name'', ''Indicator'']"
    by (rule mp)
  then have "metric_column [''Unit'', ''Series Name'', ''Indicator'']
        (metric_candidates [''Unit'', ''Series Name'', ''Indicator'']) = Some ''Series Name''"
    by (simp only: f)
  with d show ?thesis by (rule conjI)
qed

end
